theory Spec2Isabelle
  imports Complex_Main "HOL-Library.AList" "HOL-Library.List_Lexorder" "HOL-Library.Char_ord"
begin

section \<open>Python values, exceptions and the HTTP collaborator\<close>

text \<open>
  The repository is a ClickUp client (\<^verbatim>\<open>Web App/clickup_client.py\<close>, duplicated at the
  top of \<^verbatim>\<open>clickup_raw_code.py\<close>), a per-task time collector
  (\<^verbatim>\<open>extract_tracked_time\<close>) and a pandas script that summarises time entries by tag.

  Exceptions are values: every function that can raise returns \<open>error + 'a\<close>.
  The constructors are the exception classes the modelled code can raise; the string is
  the text of the exception (Python puts quotes around the names in it).
\<close>

datatype error =
    NameError string
  | TypeError string
  | KeyError string
  | HTTPError nat



text \<open>
  A method body reads a name that is neither a parameter nor a local from the globals of
  its module, at the time of the call (the builtins, looked at last, bind none of the
  names read below). The globals are therefore an input of the model: a map from a name
  to the text its value formats to inside an f-string.
\<close>

type_synonym globals = "string \<rightharpoonup> string"

text \<open>The names bound at module level by \<^verbatim>\<open>Web App/clickup_client.py\<close>.\<close>

definition client_module_names :: "string list" where
  "client_module_names =
     [''logging'', ''requests'', ''pd'', ''datetime'', ''ClickUpClient'']"

text \<open>
  The names bound at module level by \<^verbatim>\<open>clickup_raw_code.py\<close> (imports, the class,
  the functions and the variables of the script; comprehension and lambda variables are
  local to them).
\<close>

definition raw_code_module_names :: "string list" where
  "raw_code_module_names =
     [''os'', ''logging'', ''datetime'', ''time'', ''requests'', ''pd'', ''px'',
      ''userdata'', ''timezone'', ''ClickUpClient'', ''extract_cf_info'',
      ''extract_all_cf_info'', ''format_timestamp'', ''extract_tracked_time'',
      ''create_client_map'', ''create_root_cause_map'', ''get_user_date'',
      ''user_token'', ''client'', ''team'', ''team_id'', ''team_name'',
      ''team_members'', ''assignee_ids'', ''assignees'', ''start_date'', ''end_date'',
      ''START_DATE'', ''END_DATE'', ''data'', ''df'', ''tag_input'', ''search_tags'',
      ''acid_df'', ''acid_exploded'', ''tag_summary'', ''dedup_total'', ''total_row'']"

text \<open>Query parameters: a Python dict, in insertion order.\<close>

datatype pval = PInt int | PStr string | PBool bool

type_synonym params = "(string \<times> pval) list"

record view =
  view_id :: string
  view_name :: string

record task =
  task_id :: string
  task_name :: string

text \<open>
  One tracked interval of a time entry, and the entry itself, with the keys
  \<^verbatim>\<open>extract_tracked_time\<close> reads; \<open>None\<close> is an absent key.
\<close>

record interval =
  interval_start :: "int option"
  interval_end :: "int option"
  interval_time :: "int option"
  interval_tags :: "string list option"

record entry =
  entry_user :: "string option option"
  entry_intervals :: "interval list option"

text \<open>
  The JSON object of a response, with the keys the client reads (\<open>None\<close>: the key is
  absent), and the response with its status code.
\<close>

record body =
  views :: "view list option"
  tasks :: "task list option"
  data :: "entry list option"

record response =
  status_code :: nat
  json :: body

record request =
  url :: string
  query :: params

text \<open>
  The remote service is deterministic but may answer the same request differently over
  time: its answer is a function of the requests it has seen so far and of the request.
  The state the client functions thread is that history of requests.
\<close>

type_synonym server = "request list \<Rightarrow> request \<Rightarrow> response"

definition requests_get :: "server \<Rightarrow> request \<Rightarrow> request list \<Rightarrow> response \<times> request list" where
  "requests_get srv rq hist = (srv hist rq, hist @ [rq])"

text \<open>\<^verbatim>\<open>response.raise_for_status()\<close>: an HTTPError for a 4xx or 5xx status.\<close>

definition raise_for_status :: "response \<Rightarrow> error option" where
  "raise_for_status r =
     (if 400 \<le> status_code r \<and> status_code r < 600 then Some (HTTPError (status_code r))
      else None)"

definition base_url :: string where
  "base_url = ''https://api.clickup.com/api/v2/''"

section \<open>The client: views and pagination\<close>

definition views_url :: "string \<Rightarrow> string" where
  "views_url list_id = base_url @ ''list/'' @ list_id @ ''/view''"

definition view_tasks_url :: "string \<Rightarrow> string" where
  "view_tasks_url vid = base_url @ ''/view/'' @ vid @ ''/task''"

text \<open>
  \<^verbatim>\<open>get_views(self, view_id)\<close>: the body formats the name \<^verbatim>\<open>list_id\<close>, which is not
  the parameter, so it is read from the globals. A status other than 200 that is not an
  error status makes the method fall off its end and return \<^verbatim>\<open>None\<close> (the inner
  \<open>None\<close> of the result).
\<close>

definition get_views ::
  "globals \<Rightarrow> server \<Rightarrow> string \<Rightarrow> request list \<Rightarrow> (error + view list option) \<times> request list" where
  "get_views g srv view_id_arg hist =
     (case g ''list_id'' of
        None \<Rightarrow> (Inl (NameError ''list_id''), hist)
      | Some list_id \<Rightarrow>
          (let (response, hist') = requests_get srv \<lparr>url = views_url list_id, query = []\<rparr> hist
           in if status_code response = 200
              then (Inr (Some (case views (json response) of None \<Rightarrow> [] | Some vs \<Rightarrow> vs)), hist')
              else (case raise_for_status response of
                      Some e \<Rightarrow> (Inl e, hist')
                    | None \<Rightarrow> (Inr None, hist'))))"

text \<open>
  \<^verbatim>\<open>get_table_view(self, list_id)\<close>: the first view named \<^verbatim>\<open>DoNotAlter\<close>, or
  \<^verbatim>\<open>None\<close>. Iterating over a \<^verbatim>\<open>None\<close> view list is a TypeError.
\<close>

definition get_table_view ::
  "globals \<Rightarrow> server \<Rightarrow> string \<Rightarrow> request list \<Rightarrow> (error + view option) \<times> request list" where
  "get_table_view g srv list_id hist =
     (case get_views g srv list_id hist of
        (Inl e, hist') \<Rightarrow> (Inl e, hist')
      | (Inr None, hist') \<Rightarrow> (Inl (TypeError ''NoneType object is not iterable''), hist')
      | (Inr (Some vs), hist') \<Rightarrow> (Inr (find (\<lambda>v. view_name v = ''DoNotAlter'') vs), hist'))"

definition get_view_tasks ::
  "server \<Rightarrow> string \<Rightarrow> params \<Rightarrow> request list \<Rightarrow> (error + task list option) \<times> request list" where
  "get_view_tasks srv vid ps hist =
     (let (response, hist') = requests_get srv \<lparr>url = view_tasks_url vid, query = ps\<rparr> hist
      in if status_code response = 200
         then (Inr (Some (case tasks (json response) of None \<Rightarrow> [] | Some ts \<Rightarrow> ts)), hist')
         else (case raise_for_status response of
                 Some e \<Rightarrow> (Inl e, hist')
               | None \<Rightarrow> (Inr None, hist')))"

text \<open>
  \<^verbatim>\<open>get_all_tasks(self, list_id, **params)\<close>. The \<^verbatim>\<open>while True\<close> loop has no bound of
  its own (a service that always answers with 30 tasks keeps it running), so the model
  takes fuel, one unit per iteration, and \<open>None\<close> is "still running". \<^verbatim>\<open>params\<close> is
  mutated in place, so the updated dict is what the next iteration starts from.
  Subscripting a \<^verbatim>\<open>None\<close> table view and extending a list by \<^verbatim>\<open>None\<close> are
  TypeErrors.
\<close>

fun get_all_tasks_loop ::
  "nat \<Rightarrow> globals \<Rightarrow> server \<Rightarrow> string \<Rightarrow> params \<Rightarrow> nat \<Rightarrow> task list \<Rightarrow> request list
     \<Rightarrow> ((error + task list) \<times> request list) option" where
  "get_all_tasks_loop 0 g srv list_id ps page all_tasks hist = None"
| "get_all_tasks_loop (Suc fuel) g srv list_id ps page all_tasks hist =
     (let ps' = AList.update ''page'' (PInt (int page)) ps
      in case get_table_view g srv list_id hist of
           (Inl e, hist1) \<Rightarrow> Some (Inl e, hist1)
         | (Inr None, hist1) \<Rightarrow>
             Some (Inl (TypeError ''NoneType object is not subscriptable''), hist1)
         | (Inr (Some table_view), hist1) \<Rightarrow>
             (case get_view_tasks srv (view_id table_view) ps' hist1 of
                (Inl e, hist2) \<Rightarrow> Some (Inl e, hist2)
              | (Inr None, hist2) \<Rightarrow>
                  Some (Inl (TypeError ''NoneType object is not iterable''), hist2)
              | (Inr (Some page_tasks), hist2) \<Rightarrow>
                  (let all_tasks' = all_tasks @ page_tasks
                   in if length page_tasks < 30 then Some (Inr all_tasks', hist2)
                      else get_all_tasks_loop fuel g srv list_id ps' (Suc page) all_tasks' hist2)))"

definition get_all_tasks ::
  "nat \<Rightarrow> globals \<Rightarrow> server \<Rightarrow> string \<Rightarrow> params \<Rightarrow> request list
     \<Rightarrow> ((error + task list) \<times> request list) option" where
  "get_all_tasks fuel g srv list_id ps hist = get_all_tasks_loop fuel g srv list_id ps 0 [] hist"

section \<open>The collector: tracked time per task\<close>

definition task_time_url :: "string \<Rightarrow> string" where
  "task_time_url tid = base_url @ ''task/'' @ tid @ ''/time''"

text \<open>
  \<^verbatim>\<open>get_task_time_tracking\<close> goes through \<^verbatim>\<open>_get\<close>: \<^verbatim>\<open>raise_for_status\<close> first,
  then the \<^verbatim>\<open>data\<close> key of the body (a KeyError when it is absent).
\<close>

definition get_task_time_tracking ::
  "server \<Rightarrow> string \<Rightarrow> request list \<Rightarrow> (error + entry list) \<times> request list" where
  "get_task_time_tracking srv tid hist =
     (let (response, hist') = requests_get srv \<lparr>url = task_time_url tid, query = []\<rparr> hist
      in case raise_for_status response of
           Some e \<Rightarrow> (Inl e, hist')
         | None \<Rightarrow>
             (case data (json response) of
                None \<Rightarrow> (Inl (KeyError ''data''), hist')
              | Some es \<Rightarrow> (Inr es, hist')))"

text \<open>
  One row of the returned table. The source stores \<^verbatim>\<open>round(duration_ms / 3600000, 2)\<close>
  and the two instants formatted in the local time zone; both are functions of the
  integers kept here (floating point and the time zone are not modelled).
\<close>

record tracked =
  Task_ID :: string
  Data_Team_Assignee :: string
  Time_Tracked_Duration_ms :: int
  Time_Tracked_Start_ms :: int
  Time_Tracked_End_ms :: int
  Tag_Names :: string

text \<open>\<^verbatim>\<open>format_timestamp\<close>: \<^verbatim>\<open>int(None)\<close> is a TypeError.\<close>

definition format_timestamp :: "int option \<Rightarrow> error + int" where
  "format_timestamp unix_ms =
     (case unix_ms of
        None \<Rightarrow> Inl (TypeError ''int() argument must be a string or a number, not NoneType'')
      | Some ms \<Rightarrow> Inr ms)"

fun join :: "string \<Rightarrow> string list \<Rightarrow> string" where
  "join sep [] = []"
| "join sep [x] = x"
| "join sep (x # y # ys) = x @ sep @ join sep (y # ys)"

definition interval_record :: "string \<Rightarrow> string \<Rightarrow> interval \<Rightarrow> error + tracked" where
  "interval_record tid assignee iv =
     (let duration_ms = (case interval_time iv of None \<Rightarrow> 0 | Some t \<Rightarrow> t);
          tag_text = join '', '' (case interval_tags iv of None \<Rightarrow> [] | Some ts \<Rightarrow> ts)
      in case format_timestamp (interval_start iv) of
           Inl e \<Rightarrow> Inl e
         | Inr s \<Rightarrow>
             (case format_timestamp (interval_end iv) of
                Inl e \<Rightarrow> Inl e
              | Inr en \<Rightarrow>
                  Inr \<lparr>Task_ID = tid, Data_Team_Assignee = assignee,
                       Time_Tracked_Duration_ms = duration_ms,
                       Time_Tracked_Start_ms = s, Time_Tracked_End_ms = en,
                       Tag_Names = tag_text\<rparr>))"

fun intervals_records :: "string \<Rightarrow> string \<Rightarrow> interval list \<Rightarrow> error + tracked list" where
  "intervals_records tid assignee [] = Inr []"
| "intervals_records tid assignee (iv # ivs) =
     (case interval_record tid assignee iv of
        Inl e \<Rightarrow> Inl e
      | Inr r \<Rightarrow>
          (case intervals_records tid assignee ivs of
             Inl e \<Rightarrow> Inl e
           | Inr rs \<Rightarrow> Inr (r # rs)))"

definition entry_assignee :: "entry \<Rightarrow> string" where
  "entry_assignee en =
     (case entry_user en of
        None \<Rightarrow> ''Unknown''
      | Some None \<Rightarrow> ''Unknown''
      | Some (Some username) \<Rightarrow> username)"

fun entries_records :: "string \<Rightarrow> entry list \<Rightarrow> error + tracked list" where
  "entries_records tid [] = Inr []"
| "entries_records tid (en # ens) =
     (case intervals_records tid (entry_assignee en)
             (case entry_intervals en of None \<Rightarrow> [] | Some ivs \<Rightarrow> ivs) of
        Inl e \<Rightarrow> Inl e
      | Inr rs \<Rightarrow>
          (case entries_records tid ens of
             Inl e \<Rightarrow> Inl e
           | Inr rs' \<Rightarrow> Inr (rs @ rs')))"

text \<open>
  What \<^verbatim>\<open>extract_tracked_time\<close> does to the world: requests, \<^verbatim>\<open>time.sleep\<close> calls (in
  seconds) and printed lines.
\<close>

record world =
  requests_log :: "request list"
  sleeps :: "nat list"
  stdout :: "string list"

text \<open>
  \<^verbatim>\<open>extract_tracked_time(client, tasks)\<close>. The \<^verbatim>\<open>try\<close> catches HTTPError only. In the
  handler, a 429 prints, sleeps 60 seconds and fetches again, binding the result to
  \<^verbatim>\<open>time_entries\<close> and doing nothing more with it; an exception of that second fetch
  is raised from inside the handler and leaves the function. For any other status the
  handler formats the name \<^verbatim>\<open>e\<close> (the exception is bound to \<^verbatim>\<open>err\<close>), which is read
  from the globals. An error leaves the function without the records gathered so far.
\<close>

fun extract_tracked_time_loop ::
  "globals \<Rightarrow> server \<Rightarrow> task list \<Rightarrow> tracked list \<Rightarrow> world \<Rightarrow> (error + tracked list) \<times> world" where
  "extract_tracked_time_loop g srv [] records w = (Inr records, w)"
| "extract_tracked_time_loop g srv (t # ts) records w =
     (case get_task_time_tracking srv (task_id t) (requests_log w) of
        (Inr time_entries, hist1) \<Rightarrow>
          (case entries_records (task_id t) time_entries of
             Inl e \<Rightarrow> (Inl e, w\<lparr>requests_log := hist1\<rparr>)
           | Inr rs \<Rightarrow>
               extract_tracked_time_loop g srv ts (records @ rs) (w\<lparr>requests_log := hist1\<rparr>))
      | (Inl (HTTPError code), hist1) \<Rightarrow>
          (if code = 429
           then (let w1 = w\<lparr>requests_log := hist1,
                           stdout := stdout w @
                             [''Rate limit hit! Waiting for 60 seconds before retrying task ''
                                @ task_id t @ ''...''],
                           sleeps := sleeps w @ [60]\<rparr>
                 in case get_task_time_tracking srv (task_id t) (requests_log w1) of
                      (Inl e, hist2) \<Rightarrow> (Inl e, w1\<lparr>requests_log := hist2\<rparr>)
                    | (Inr time_entries, hist2) \<Rightarrow>
                        extract_tracked_time_loop g srv ts records (w1\<lparr>requests_log := hist2\<rparr>))
           else (case g ''e'' of
                   None \<Rightarrow> (Inl (NameError ''e''), w\<lparr>requests_log := hist1\<rparr>)
                 | Some e_text \<Rightarrow>
                     extract_tracked_time_loop g srv ts records
                       (w\<lparr>requests_log := hist1,
                          stdout := stdout w @
                            [''Error processing task '' @ task_id t @ '': '' @ e_text]\<rparr>)))
      | (Inl e, hist1) \<Rightarrow> (Inl e, w\<lparr>requests_log := hist1\<rparr>))"

definition extract_tracked_time ::
  "globals \<Rightarrow> server \<Rightarrow> task list \<Rightarrow> world \<Rightarrow> (error + tracked list) \<times> world" where
  "extract_tracked_time g srv ts w = extract_tracked_time_loop g srv ts [] w"

section \<open>The tag summary script\<close>

text \<open>
  The script at the end of \<^verbatim>\<open>clickup_raw_code.py\<close> (and of
  \<^verbatim>\<open>Web App/time-tracking-app.py\<close>) builds a pandas table from the time entries of
  the bulk endpoint. One fetched entry, with the keys the script reads:
  \<open>te_duration = None\<close> is a duration that \<^verbatim>\<open>pd.to_numeric(errors="coerce")\<close> turns
  into NaN, \<open>te_tags = None\<close> a \<^verbatim>\<open>tags\<close> value that is not a list.
\<close>

record time_entry =
  te_id :: string
  te_duration :: "int option"
  te_billable :: bool
  te_tags :: "string list option"

datatype label = Billable | Non_Billable

text \<open>
  The cells are float64 in the source. The model computes the finite values exactly, as
  rationals, and keeps the three values a float division by zero produces. The sums of
  pandas skip NaN, so a NaN duration adds nothing.
\<close>

datatype fval = Fin rat | NaN | PosInf | NegInf

definition float_div :: "rat \<Rightarrow> rat \<Rightarrow> fval" where
  "float_div x y =
     (if y \<noteq> 0 then Fin (x / y)
      else if x = 0 then NaN
      else if 0 < x then PosInf
      else NegInf)"

fun float_times :: "fval \<Rightarrow> rat \<Rightarrow> fval" where
  "float_times (Fin x) k = Fin (x * k)"
| "float_times NaN k = NaN"
| "float_times PosInf k = (if 0 < k then PosInf else if k < 0 then NegInf else NaN)"
| "float_times NegInf k = (if 0 < k then NegInf else if k < 0 then PosInf else NaN)"

text \<open>The derived columns of \<^verbatim>\<open>df\<close>.\<close>

definition Duration_hours :: "time_entry \<Rightarrow> rat" where
  "Duration_hours e =
     (case te_duration e of None \<Rightarrow> 0 | Some ms \<Rightarrow> of_int ms / (1000 * 60 * 60))"

definition Billable_label :: "time_entry \<Rightarrow> label" where
  "Billable_label e = (if te_billable e then Billable else Non_Billable)"

text \<open>\<^verbatim>\<open>str.lower\<close>, on the ASCII letters.\<close>

definition lower_char :: "char \<Rightarrow> char" where
  "lower_char c =
     (case map_of (zip ''ABCDEFGHIJKLMNOPQRSTUVWXYZ'' ''abcdefghijklmnopqrstuvwxyz'') c of
        Some d \<Rightarrow> d
      | None \<Rightarrow> c)"

definition lower :: "string \<Rightarrow> string" where
  "lower s = map lower_char s"

definition TagName :: "time_entry \<Rightarrow> string list" where
  "TagName e = (case te_tags e of None \<Rightarrow> [] | Some ts \<Rightarrow> map lower ts)"

text \<open>\<^verbatim>\<open>str.strip\<close> and \<^verbatim>\<open>str.split(",")\<close>, with the ASCII white space.\<close>

definition is_space :: "char \<Rightarrow> bool" where
  "is_space c =
     (c \<in> set [CHR '' '', CHR 0x09, CHR 0x0A, CHR 0x0B, CHR 0x0C, CHR 0x0D,
               CHR 0x1C, CHR 0x1D, CHR 0x1E, CHR 0x1F])"

definition strip :: "string \<Rightarrow> string" where
  "strip s = rev (dropWhile is_space (rev (dropWhile is_space s)))"

fun split :: "char \<Rightarrow> string \<Rightarrow> string list" where
  "split sep [] = [[]]"
| "split sep (c # cs) =
     (if c = sep then [] # split sep cs
      else (case split sep cs of [] \<Rightarrow> [[c]] | p # ps \<Rightarrow> (c # p) # ps))"

definition search_tags :: "string \<Rightarrow> string list" where
  "search_tags tag_input = filter (\<lambda>t. t \<noteq> []) (map strip (split CHR '','' tag_input))"

text \<open>
  The filter compares the tag names as fetched with the search tags;
  \<^verbatim>\<open>explode\<close> gives a row per element of \<^verbatim>\<open>TagName\<close> (one row with NaN, here
  \<open>None\<close>, for an empty list), and the second filter compares the lower-cased
  \<^verbatim>\<open>TagName\<close> with the same search tags.
\<close>

definition acid_df :: "string list \<Rightarrow> time_entry list \<Rightarrow> time_entry list" where
  "acid_df st df =
     filter (\<lambda>e. case te_tags e of None \<Rightarrow> False | Some ts \<Rightarrow> list_ex (\<lambda>t. t \<in> set st) ts) df"

definition explode :: "time_entry list \<Rightarrow> (time_entry \<times> string option) list" where
  "explode df =
     concat (map (\<lambda>e. if TagName e = [] then [(e, None)]
                       else map (\<lambda>t. (e, Some t)) (TagName e)) df)"

definition isin :: "string list \<Rightarrow> string option \<Rightarrow> bool" where
  "isin st t = (case t of None \<Rightarrow> False | Some n \<Rightarrow> n \<in> set st)"

definition acid_exploded :: "string list \<Rightarrow> time_entry list \<Rightarrow> (time_entry \<times> string option) list" where
  "acid_exploded st acid = filter (\<lambda>r. isin st (snd r)) (explode acid)"

text \<open>
  \<^verbatim>\<open>groupby(["TagName", "Billable"])["Duration (hours)"].sum().unstack(fill_value=0)\<close>:
  a row per tag of the exploded rows, in sorted order, a column per label that occurs in
  them, and in each cell the sum of the group (0 for a group that does not occur).
\<close>

definition group_sum :: "(time_entry \<times> string option) list \<Rightarrow> string \<Rightarrow> label \<Rightarrow> rat" where
  "group_sum ex tag lab =
     sum_list (map (\<lambda>r. Duration_hours (fst r))
                (filter (\<lambda>r. snd r = Some tag \<and> Billable_label (fst r) = lab) ex))"

definition group_tags :: "(time_entry \<times> string option) list \<Rightarrow> string list" where
  "group_tags ex = sort (remdups (List.map_filter snd ex))"

definition has_column :: "label \<Rightarrow> (time_entry \<times> string option) list \<Rightarrow> bool" where
  "has_column lab ex = list_ex (\<lambda>r. Billable_label (fst r) = lab) ex"

record summary_row =
  Billable_Hours :: rat
  Non_Billable_Hours :: rat
  Total_Hours :: rat
  Pct_Billable :: fval

text \<open>
  A row of \<^verbatim>\<open>tag_summary\<close>: \<^verbatim>\<open>Total Hours\<close> sums the label columns, and
  \<^verbatim>\<open>% Billable\<close> is the unguarded float division of the two columns, times 100.
\<close>

definition tag_summary_row :: "(time_entry \<times> string option) list \<Rightarrow> string \<Rightarrow> summary_row" where
  "tag_summary_row ex tag =
     (let b = group_sum ex tag Billable;
          n = group_sum ex tag Non_Billable;
          total = b + n
      in \<lparr>Billable_Hours = b, Non_Billable_Hours = n, Total_Hours = total,
          Pct_Billable = float_times (float_div b total) 100\<rparr>)"

text \<open>\<^verbatim>\<open>drop_duplicates(subset="id")\<close> keeps the first row of each id.\<close>

fun drop_duplicates_seen :: "string list \<Rightarrow> time_entry list \<Rightarrow> time_entry list" where
  "drop_duplicates_seen seen [] = []"
| "drop_duplicates_seen seen (e # es) =
     (if te_id e \<in> set seen then drop_duplicates_seen seen es
      else e # drop_duplicates_seen (te_id e # seen) es)"

definition drop_duplicates :: "time_entry list \<Rightarrow> time_entry list" where
  "drop_duplicates df = drop_duplicates_seen [] df"

definition label_hours :: "label \<Rightarrow> time_entry list \<Rightarrow> rat" where
  "label_hours lab df =
     sum_list (map Duration_hours (filter (\<lambda>e. Billable_label e = lab) df))"

definition total_row :: "time_entry list \<Rightarrow> summary_row" where
  "total_row acid =
     (let dedup_total = drop_duplicates acid;
          b = label_hours Billable dedup_total;
          n = label_hours Non_Billable dedup_total;
          total = b + n
      in \<lparr>Billable_Hours = b, Non_Billable_Hours = n, Total_Hours = total,
          Pct_Billable = (if 0 < total then Fin ((b / total) * 100) else Fin 0)\<rparr>)"

text \<open>
  The table the script displays, before \<^verbatim>\<open>round(2)\<close>: the label columns that exist,
  the rows by tag and the \<^verbatim>\<open>Total\<close> row (a hours value under a label that has no
  column is not displayed).

  The script as a whole, from the fetched entries and the text typed as tags:
  \<^verbatim>\<open>df\<close> is only bound when the fetched list is not empty, and
  \<^verbatim>\<open>tag_summary["Billable"]\<close> is a KeyError when no exploded row is billable, since
  \<^verbatim>\<open>unstack\<close> then makes no such column.
\<close>

record summary =
  label_columns :: "label list"
  tag_rows :: "(string \<times> summary_row) list"
  Total :: summary_row

definition summarize :: "time_entry list \<Rightarrow> string \<Rightarrow> error + summary" where
  "summarize fetched tag_input =
     (if fetched = [] then Inl (NameError ''df'')
      else (let st = search_tags tag_input;
                acid = acid_df st fetched;
                ex = acid_exploded st acid
            in if \<not> has_column Billable ex then Inl (KeyError ''Billable'')
               else Inr \<lparr>label_columns = filter (\<lambda>l. has_column l ex) [Billable, Non_Billable],
                         tag_rows = map (\<lambda>t. (t, tag_summary_row ex t)) (group_tags ex),
                         Total = total_row acid\<rparr>))"

section \<open>Runs of the shipped modules and services to run them against\<close>

text \<open>
  The globals of each module as the repository ships it: exactly the module-level names
  are bound. The texts are stand-ins; the modelled code formats none of these names.
\<close>

definition module_globals :: "string list \<Rightarrow> globals" where
  "module_globals names = map_of (map (\<lambda>n. (n, ''<'' @ n @ ''>'')) names)"

definition client_module_globals :: globals where
  "client_module_globals = module_globals client_module_names"

definition raw_code_module_globals :: globals where
  "raw_code_module_globals = module_globals raw_code_module_names"

text \<open>What a service must answer for a list to have the views \<open>vs\<close> and the pages \<open>pages\<close>.\<close>

definition view_request :: "string \<Rightarrow> request" where
  "view_request l = \<lparr>url = views_url l, query = []\<rparr>"

definition page_request :: "string \<Rightarrow> params \<Rightarrow> nat \<Rightarrow> request" where
  "page_request vid ps i =
     \<lparr>url = view_tasks_url vid, query = AList.update ''page'' (PInt (int i)) ps\<rparr>"

definition serves_views :: "server \<Rightarrow> string \<Rightarrow> view list \<Rightarrow> bool" where
  "serves_views srv l vs \<longleftrightarrow>
     (\<forall>hist. status_code (srv hist (view_request l)) = 200 \<and>
             views (json (srv hist (view_request l))) = Some vs)"

definition serves_pages :: "server \<Rightarrow> string \<Rightarrow> params \<Rightarrow> task list list \<Rightarrow> bool" where
  "serves_pages srv vid ps pages \<longleftrightarrow>
     (\<forall>hist i. i < length pages \<longrightarrow>
        status_code (srv hist (page_request vid ps i)) = 200 \<and>
        tasks (json (srv hist (page_request vid ps i))) = Some (pages ! i))"

text \<open>Full pages of 30 tasks, then one shorter page.\<close>

definition short_last_page :: "task list list \<Rightarrow> bool" where
  "short_last_page pages \<longleftrightarrow>
     pages \<noteq> [] \<and> length (last pages) < 30 \<and> list_all (\<lambda>p. length p = 30) (butlast pages)"

text \<open>The requests of a run that resolves the view before each of the pages \<open>k..<n\<close>.\<close>

definition resolve_then_page :: "string \<Rightarrow> string \<Rightarrow> params \<Rightarrow> nat \<Rightarrow> nat \<Rightarrow> request list" where
  "resolve_then_page l vid ps k n =
     concat (map (\<lambda>i. [view_request l, page_request vid ps i]) [k..<n])"






text \<open>
  A small service: list \<^verbatim>\<open>901\<close> has the given views; the view \<^verbatim>\<open>v7\<close> has the given
  pages (an empty page beyond them); every other request is answered 404.
\<close>

definition empty_body :: body where
  "empty_body = \<lparr>views = None, tasks = None, data = None\<rparr>"

definition list_service :: "view list \<Rightarrow> task list list \<Rightarrow> server" where
  "list_service vs pages hist rq =
     (if url rq = views_url ''901''
      then \<lparr>status_code = 200, json = empty_body\<lparr>views := Some vs\<rparr>\<rparr>
      else if url rq = view_tasks_url ''v7''
      then (case map_of (query rq) ''page'' of
              Some (PInt i) \<Rightarrow>
                \<lparr>status_code = 200,
                 json = empty_body\<lparr>tasks := Some (if 0 \<le> i \<and> nat i < length pages
                                                    then pages ! nat i else [])\<rparr>\<rparr>
            | _ \<Rightarrow> \<lparr>status_code = 200, json = empty_body\<lparr>tasks := Some []\<rparr>\<rparr>)
      else \<lparr>status_code = 404, json = empty_body\<rparr>)"

definition a_task :: "string \<Rightarrow> task" where
  "a_task i = \<lparr>task_id = i, task_name = ''task '' @ i\<rparr>"


text \<open>
  A view of the required name and one of another name, and globals in which a caller has
  bound \<^verbatim>\<open>list_id\<close> to list \<^verbatim>\<open>901\<close> before the call.
\<close>

definition do_not_alter :: view where
  "do_not_alter = \<lparr>view_id = ''v7'', view_name = ''DoNotAlter''\<rparr>"







text \<open>
  Services for the collector: an entry of one interval for a task, and time endpoints
  that answer 429 the first time a task is asked for and 200 afterwards, 429 every time
  for task \<^verbatim>\<open>A\<close>, or 500 for task \<^verbatim>\<open>A\<close>.
\<close>

definition one_interval :: entry where
  "one_interval =
     \<lparr>entry_user = Some (Some ''sam''),
      entry_intervals =
        Some [\<lparr>interval_start = Some 1000, interval_end = Some 7201000,
               interval_time = Some 7200000, interval_tags = Some [''acid'', ''anode'']\<rparr>]\<rparr>"

definition time_ok :: response where
  "time_ok = \<lparr>status_code = 200, json = empty_body\<lparr>data := Some [one_interval]\<rparr>\<rparr>"

definition time_status :: "nat \<Rightarrow> response" where
  "time_status c = \<lparr>status_code = c, json = empty_body\<rparr>"

definition limited_once_service :: server where
  "limited_once_service hist rq = (if rq \<in> set hist then time_ok else time_status 429)"

definition limited_A_service :: server where
  "limited_A_service hist rq = (if url rq = task_time_url ''A'' then time_status 429 else time_ok)"

definition failing_A_service :: server where
  "failing_A_service hist rq = (if url rq = task_time_url ''A'' then time_status 500 else time_ok)"

definition task_A :: task where
  "task_A = \<lparr>task_id = ''A'', task_name = ''first''\<rparr>"

definition task_B :: task where
  "task_B = \<lparr>task_id = ''B'', task_name = ''second''\<rparr>"

definition time_request :: "string \<Rightarrow> request" where
  "time_request tid = \<lparr>url = task_time_url tid, query = []\<rparr>"

definition world0 :: world where
  "world0 = \<lparr>requests_log = [], sleeps = [], stdout = []\<rparr>"

definition the_record :: "string \<Rightarrow> tracked" where
  "the_record tid =
     \<lparr>Task_ID = tid, Data_Team_Assignee = ''sam'', Time_Tracked_Duration_ms = 7200000,
      Time_Tracked_Start_ms = 1000, Time_Tracked_End_ms = 7201000,
      Tag_Names = ''acid, anode''\<rparr>"

text \<open>A fetched time entry of the given id, duration in ms, flag and tags.\<close>

definition an_entry :: "string \<Rightarrow> int \<Rightarrow> bool \<Rightarrow> string list \<Rightarrow> time_entry" where
  "an_entry i ms b ts = \<lparr>te_id = i, te_duration = Some ms, te_billable = b, te_tags = Some ts\<rparr>"

text \<open>
  The entry of the running example (2 hours, billable, two tags), an entry of duration 0,
  and two entries whose tag differs in the case of one letter.
\<close>

definition two_tag_entry :: time_entry where
  "two_tag_entry = an_entry ''1'' 7200000 True [''acid'', ''anode'']"

definition zero_entry :: time_entry where
  "zero_entry = an_entry ''1'' 0 True [''acid'']"

definition lower_entry :: time_entry where
  "lower_entry = an_entry ''1'' 7200000 True [''acid'']"

definition capital_entry :: time_entry where
  "capital_entry = an_entry ''2'' 3600000 True [''Acid'']"


section \<open>The undefined global of the view listing\<close>

lemma names_unbound:
  "''list_id'' \<notin> set client_module_names"
  "''list_id'' \<notin> set raw_code_module_names"
  "''e'' \<notin> set raw_code_module_names"
  by (simp_all add: client_module_names_def raw_code_module_names_def)

lemma dom_module_globals: "dom (module_globals names) = set names"
  by (simp add: module_globals_def dom_map_of_conv_image_fst image_image)

lemma unbound_lookup: "dom g \<subseteq> set names \<Longrightarrow> n \<notin> set names \<Longrightarrow> g n = None"
  by (auto simp: dom_def)

text \<open>
  Claim C10. Whatever argument it is given, \<^verbatim>\<open>get_views\<close> does not use it: two calls
  that differ only in the argument give the same result, under any globals. In a run of
  either module as shipped, where only the module-level names are bound, the name
  \<^verbatim>\<open>list_id\<close> is undefined, so \<^verbatim>\<open>get_views\<close> raises NameError before any request is
  sent, and so do \<^verbatim>\<open>get_table_view\<close> and the first iteration of \<^verbatim>\<open>get_all_tasks\<close>.
\<close>

theorem get_views_undefined_name:
  assumes "dom g \<subseteq> set client_module_names \<or> dom g \<subseteq> set raw_code_module_names"
  shows "get_views g srv v hist = (Inl (NameError ''list_id''), hist) \<and>
         get_table_view g srv l hist = (Inl (NameError ''list_id''), hist) \<and>
         get_all_tasks (Suc fuel) g srv l ps hist = Some (Inl (NameError ''list_id''), hist) \<and>
         get_views g' srv v hist = get_views g' srv v' hist"
proof -
  from assms have "g ''list_id'' = None"
    using names_unbound unbound_lookup by blast
  then show ?thesis
    by (simp add: get_views_def get_table_view_def get_all_tasks_def)
qed

theorem get_views_undefined_name_witness:
  "dom client_module_globals \<subseteq> set client_module_names \<and>
   dom raw_code_module_globals \<subseteq> set raw_code_module_names \<and>
   get_views client_module_globals (list_service [] []) ''901'' []
     = (Inl (NameError ''list_id''), []) \<and>
   get_table_view raw_code_module_globals (list_service [] []) ''901'' []
     = (Inl (NameError ''list_id''), [])"
  using get_views_undefined_name [of client_module_globals "list_service [] []" "''901''" "[]"]
    get_views_undefined_name [of raw_code_module_globals "list_service [] []" _ "[]" "''901''"]
  by (simp add: client_module_globals_def raw_code_module_globals_def dom_module_globals)

section \<open>The pagination loop when the global is bound\<close>

lemma get_views_bound:
  assumes "g ''list_id'' = Some l" "serves_views srv l vs"
  shows "get_views g srv v hist = (Inr (Some vs), hist @ [view_request l])"
  using assms
  by (simp add: get_views_def requests_get_def serves_views_def view_request_def)

lemma get_table_view_bound:
  assumes "g ''list_id'' = Some l" "serves_views srv l vs"
  shows "get_table_view g srv lid hist =
           (Inr (find (\<lambda>v. view_name v = ''DoNotAlter'') vs), hist @ [view_request l])"
  using get_views_bound [of g l srv vs lid hist] assms by (simp add: get_table_view_def)

lemma get_view_tasks_page:
  assumes "serves_pages srv vid ps pages" "i < length pages"
    "AList.update ''page'' (PInt (int i)) psk = AList.update ''page'' (PInt (int i)) ps"
  shows "get_view_tasks srv vid (AList.update ''page'' (PInt (int i)) psk) hist =
           (Inr (Some (pages ! i)), hist @ [page_request vid ps i])"
  using assms
  by (simp add: get_view_tasks_def requests_get_def serves_pages_def page_request_def)



lemma short_last_pageD:
  assumes "short_last_page pages" "k < length pages"
  shows "length (pages ! k) < 30 \<longleftrightarrow> Suc k = length pages"
proof (cases "Suc k = length pages")
  case True
  then have "k = length pages - 1" by simp
  moreover from assms have "pages \<noteq> []" by (simp add: short_last_page_def)
  ultimately have "pages ! k = last pages" by (simp add: last_conv_nth)
  with assms True show ?thesis by (simp add: short_last_page_def)
next
  case False
  with assms have lt: "k < length (butlast pages)" by simp
  then have "butlast pages ! k = pages ! k" by (simp add: nth_butlast)
  moreover from assms(1) have "list_all (\<lambda>p. length p = 30) (butlast pages)"
    by (simp add: short_last_page_def)
  ultimately have "length (pages ! k) = 30"
    using lt by (auto simp: list_all_length)
  with False show ?thesis by simp
qed


lemma resolve_then_page_step:
  "k < n \<Longrightarrow> resolve_then_page l vid ps k n =
     [view_request l, page_request vid ps k] @ resolve_then_page l vid ps (Suc k) n"
  by (simp add: resolve_then_page_def upt_conv_Cons)

lemma resolve_then_page_done: "resolve_then_page l vid ps n n = []"
  by (simp add: resolve_then_page_def)

lemma loop_step:
  assumes g: "g ''list_id'' = Some l"
    and vs: "serves_views srv l vs"
    and tv: "find (\<lambda>v. view_name v = ''DoNotAlter'') vs = Some tv"
    and pg: "serves_pages srv (view_id tv) ps pages"
    and k: "k < length pages"
    and inv: "\<forall>v. AList.update ''page'' v psk = AList.update ''page'' v ps"
  shows "get_all_tasks_loop (Suc fuel) g srv lid psk k acc hist =
           (if length (pages ! k) < 30
            then Some (Inr (acc @ pages ! k),
                       hist @ [view_request l, page_request (view_id tv) ps k])
            else get_all_tasks_loop fuel g srv lid (AList.update ''page'' (PInt (int k)) psk)
                   (Suc k) (acc @ pages ! k)
                   (hist @ [view_request l, page_request (view_id tv) ps k]))"
proof -
  have tvw: "get_table_view g srv lid hist = (Inr (Some tv), hist @ [view_request l])"
    using get_table_view_bound [of g l srv vs lid hist] g vs tv by simp
  have eq: "AList.update ''page'' (PInt (int k)) psk = AList.update ''page'' (PInt (int k)) ps"
    using inv by blast
  have pgs: "get_view_tasks srv (view_id tv) (AList.update ''page'' (PInt (int k)) psk)
               (hist @ [view_request l]) =
             (Inr (Some (pages ! k)), (hist @ [view_request l]) @ [page_request (view_id tv) ps k])"
    using get_view_tasks_page [of srv "view_id tv" ps pages k psk "hist @ [view_request l]"] pg k eq
    by blast
  show ?thesis
    by (simp only: get_all_tasks_loop.simps Let_def tvw pgs prod.case sum.case option.case
          append_assoc append.simps)
qed


lemma loop_run:
  assumes g: "g ''list_id'' = Some l"
    and vs: "serves_views srv l vs"
    and tv: "find (\<lambda>v. view_name v = ''DoNotAlter'') vs = Some tv"
    and pg: "serves_pages srv (view_id tv) ps pages"
    and sh: "short_last_page pages"
  shows "k < length pages \<Longrightarrow> length pages - k \<le> fuel \<Longrightarrow>
         \<forall>v. AList.update ''page'' v psk = AList.update ''page'' v ps \<Longrightarrow>
         get_all_tasks_loop fuel g srv lid psk k acc hist =
           Some (Inr (acc @ concat (drop k pages)),
                 hist @ resolve_then_page l (view_id tv) ps k (length pages))"
proof (induction fuel arbitrary: k psk acc hist)
  case 0
  then show ?case by simp
next
  case (Suc fuel)
  note step = loop_step [of g l srv vs tv ps pages k psk fuel lid acc hist, OF g vs tv pg Suc.prems(1) Suc.prems(3)]
  have dr: "drop k pages = pages ! k # drop (Suc k) pages"
    using Suc.prems(1) by (simp add: Cons_nth_drop_Suc)
  have rs: "resolve_then_page l (view_id tv) ps k (length pages) =
      [view_request l, page_request (view_id tv) ps k]
        @ resolve_then_page l (view_id tv) ps (Suc k) (length pages)"
    using Suc.prems(1) by (rule resolve_then_page_step)
  show ?case
  proof (cases "Suc k = length pages")
    case True
    then have short: "length (pages ! k) < 30"
      using short_last_pageD [OF sh Suc.prems(1)] by simp
    have "drop (Suc k) pages = []" using True by simp
    moreover have "resolve_then_page l (view_id tv) ps (Suc k) (length pages) = []"
      using True by (simp add: resolve_then_page_done)
    ultimately show ?thesis
      unfolding step using short by (simp add: dr rs)
  next
    case False
    then have full: "\<not> length (pages ! k) < 30"
      using short_last_pageD [OF sh Suc.prems(1)] by simp
    have lt: "Suc k < length pages" using False Suc.prems(1) by simp
    have fu: "length pages - Suc k \<le> fuel" using Suc.prems(2) by simp
    have inv: "\<forall>v. AList.update ''page'' v (AList.update ''page'' (PInt (int k)) psk)
                 = AList.update ''page'' v ps"
      using Suc.prems(3) by simp
    have ih: "get_all_tasks_loop fuel g srv lid (AList.update ''page'' (PInt (int k)) psk)
        (Suc k) (acc @ pages ! k) (hist @ [view_request l, page_request (view_id tv) ps k]) =
        Some (Inr ((acc @ pages ! k) @ concat (drop (Suc k) pages)),
              (hist @ [view_request l, page_request (view_id tv) ps k])
                @ resolve_then_page l (view_id tv) ps (Suc k) (length pages))"
      using lt fu inv by (rule Suc.IH)
    show ?thesis
      unfolding step using full by (simp add: ih dr rs)
  qed
qed

lemma get_all_tasks_run:
  assumes "g ''list_id'' = Some l" "serves_views srv l vs"
    "find (\<lambda>v. view_name v = ''DoNotAlter'') vs = Some tv"
    "serves_pages srv (view_id tv) ps pages" "short_last_page pages"
    "length pages \<le> fuel"
  shows "get_all_tasks fuel g srv lid ps hist =
           Some (Inr (concat pages), hist @ resolve_then_page l (view_id tv) ps 0 (length pages))"
proof -
  from assms(5) have "0 < length pages" by (simp add: short_last_page_def)
  then show ?thesis
    unfolding get_all_tasks_def
    using loop_run [of g l srv vs tv ps pages 0 fuel ps lid "[]" hist] assms by simp
qed

lemma shipped_unbound:
  "client_module_globals ''list_id'' = None" "raw_code_module_globals ''list_id'' = None"
  "raw_code_module_globals ''e'' = None"
  using names_unbound
  by (simp_all add: client_module_globals_def raw_code_module_globals_def
        unbound_lookup [OF _ , of "module_globals ns" ns for ns] dom_module_globals)

lemma urls_differ: "views_url l \<noteq> view_tasks_url vid"
  by (simp add: views_url_def view_tasks_url_def base_url_def)


lemma list_service_views: "serves_views (list_service vs pages) ''901'' vs"
  by (simp add: serves_views_def list_service_def view_request_def empty_body_def)

lemma list_service_pages: "serves_pages (list_service vs pages) ''v7'' [] pages"
  using urls_differ [of "''901''" "''v7''"]
  by (simp add: serves_pages_def list_service_def page_request_def empty_body_def)














text \<open>
  Claim C1. For pages that are full (30 tasks) up to a shorter last one,
  \<^verbatim>\<open>get_all_tasks\<close> is claimed to terminate and return the concatenation of the pages.
  The loop does that once the view is resolved (\<open>get_all_tasks_run\<close>, above, for any
  globals that bind \<^verbatim>\<open>list_id\<close>), but in the client module as shipped the view
  listing reads an undefined name: on a list with a \<^verbatim>\<open>DoNotAlter\<close> view and a single
  page of two tasks the call raises NameError and sends no request.
\<close>

theorem get_all_tasks_shipped_raises:
  "get_all_tasks (Suc (Suc 0)) client_module_globals
     (list_service [do_not_alter] [[a_task ''1'', a_task ''2'']]) ''901'' [] []
   = Some (Inl (NameError ''list_id''), [])"
  by (simp add: get_all_tasks_def get_table_view_def get_views_def shipped_unbound)

section \<open>View resolution inside the paging loop\<close>









section \<open>The collector under failing fetches\<close>

lemma time_urls_differ: "task_time_url ''B'' \<noteq> task_time_url ''A''"
  by (simp add: task_time_url_def)

lemma answered_fetch_records:
  "extract_tracked_time g (\<lambda>hist rq. time_ok) [task_A] world0 =
     (Inr [the_record ''A''],
      \<lparr>requests_log = [time_request ''A''], sleeps = [], stdout = []\<rparr>)"
  by (simp add: extract_tracked_time_def get_task_time_tracking_def requests_get_def
        time_ok_def raise_for_status_def empty_body_def world0_def task_A_def
        time_request_def one_interval_def interval_record_def format_timestamp_def
        entry_assignee_def the_record_def)

text \<open>
  Claim C2. After a 429 the collector is claimed to wait 60 seconds, retry once, put the
  records of a successful retry in the result, and on a second 429 still return the
  records of the other tasks. The code waits and retries once, but, under any globals:
  when the retry for task \<^verbatim>\<open>A\<close> succeeds (its entry has one interval, the record of
  \<open>answered_fetch_records\<close>), the result holds no record of \<^verbatim>\<open>A\<close>; and when the retry
  is answered 429 again, the call raises HTTPError and the record already gathered for
  task \<^verbatim>\<open>B\<close> is lost with it.
\<close>

theorem retry_result_dropped:
  "extract_tracked_time g limited_once_service [task_A] world0 =
     (Inr [], \<lparr>requests_log = [time_request ''A'', time_request ''A''], sleeps = [60],
               stdout = [''Rate limit hit! Waiting for 60 seconds before retrying task A...'']\<rparr>) \<and>
   extract_tracked_time g limited_A_service [task_B, task_A] world0 =
     (Inl (HTTPError 429),
      \<lparr>requests_log = [time_request ''B'', time_request ''A'', time_request ''A''], sleeps = [60],
        stdout = [''Rate limit hit! Waiting for 60 seconds before retrying task A...'']\<rparr>)"
  using time_urls_differ
  by (simp add: extract_tracked_time_def get_task_time_tracking_def requests_get_def
        limited_once_service_def limited_A_service_def time_ok_def time_status_def
        raise_for_status_def empty_body_def world0_def task_A_def task_B_def
        time_request_def one_interval_def interval_record_def format_timestamp_def
        entry_assignee_def)

text \<open>
  Claim C8. A failure other than 429 for one task is claimed to be logged and skipped,
  the other tasks still being collected. The handler formats the undefined name
  \<^verbatim>\<open>e\<close>: in the module as shipped, a 500 for task \<^verbatim>\<open>A\<close> raises NameError, nothing is
  printed, and task \<^verbatim>\<open>B\<close> is never fetched.
\<close>

theorem other_status_aborts:
  "extract_tracked_time raw_code_module_globals failing_A_service [task_A, task_B] world0 =
     (Inl (NameError ''e''),
      \<lparr>requests_log = [time_request ''A''], sleeps = [], stdout = []\<rparr>)"
  by (simp add: extract_tracked_time_def get_task_time_tracking_def requests_get_def
        failing_A_service_def time_ok_def time_status_def
        raise_for_status_def empty_body_def world0_def task_A_def task_B_def
        time_request_def shipped_unbound one_interval_def interval_record_def
        format_timestamp_def entry_assignee_def)

section \<open>The tag summary\<close>





















lemma search_one: "search_tags ''acid'' = [''acid'']" "search_tags ''Acid'' = [''Acid'']"
  by (simp_all add: search_tags_def strip_def is_space_def)

lemma search_none: "search_tags '''' = []" "search_tags '' , '' = []"
  by (simp_all add: search_tags_def strip_def is_space_def)

lemma lower_Acid: "lower ''Acid'' = ''acid''"
  by (simp add: lower_def lower_char_def)

lemmas summary_defs =
  summarize_def an_entry_def acid_df_def acid_exploded_def explode_def TagName_def
  isin_def has_column_def Billable_label_def group_tags_def List.map_filter_def
  tag_summary_row_def group_sum_def Duration_hours_def float_div_def total_row_def
  drop_duplicates_def label_hours_def



lemma tag_row_quotient:
  "Total_Hours (tag_summary_row ex t) \<noteq> 0 \<Longrightarrow>
   Pct_Billable (tag_summary_row ex t) =
     Fin (Billable_Hours (tag_summary_row ex t) / Total_Hours (tag_summary_row ex t) * 100)"
  by (simp add: tag_summary_row_def Let_def float_div_def)

lemma total_row_guarded:
  "Pct_Billable (total_row acid) =
     (if 0 < Total_Hours (total_row acid)
      then Fin (Billable_Hours (total_row acid) / Total_Hours (total_row acid) * 100)
      else Fin 0)"
  by (simp add: total_row_def Let_def)

lemma summarize_rows:
  assumes "summarize fetched tag_input = Inr s"
  shows "tag_rows s =
           map (\<lambda>t. (t, tag_summary_row
                          (acid_exploded (search_tags tag_input)
                             (acid_df (search_tags tag_input) fetched)) t))
             (group_tags (acid_exploded (search_tags tag_input)
                            (acid_df (search_tags tag_input) fetched)))"
    and "Total s = total_row (acid_df (search_tags tag_input) fetched)"
  using assms by (auto simp: summarize_def Let_def split: if_splits)

lemma lower_acid_anode: "lower ''acid'' = ''acid''" "lower ''anode'' = ''anode''"
  by (simp_all add: lower_def lower_char_def)

lemma search_acid_anode: "search_tags ''acid, anode'' = [''acid'', ''anode'']"
  by (simp add: search_tags_def strip_def is_space_def)

lemma example_summary:
  "summarize [two_tag_entry] ''acid, anode'' =
     Inr \<lparr>label_columns = [Billable],
          tag_rows =
            [(''acid'', \<lparr>Billable_Hours = 2, Non_Billable_Hours = 0, Total_Hours = 2,
                         Pct_Billable = Fin 100\<rparr>),
             (''anode'', \<lparr>Billable_Hours = 2, Non_Billable_Hours = 0, Total_Hours = 2,
                          Pct_Billable = Fin 100\<rparr>)],
          Total = \<lparr>Billable_Hours = 2, Non_Billable_Hours = 0, Total_Hours = 2,
                    Pct_Billable = Fin 100\<rparr>\<rparr>"
  by (simp add: summarize_def search_acid_anode two_tag_entry_def an_entry_def acid_df_def
        acid_exploded_def explode_def TagName_def lower_acid_anode isin_def has_column_def
        Billable_label_def group_tags_def List.map_filter_def tag_summary_row_def
        group_sum_def Duration_hours_def float_div_def total_row_def drop_duplicates_def
        label_hours_def)



text \<open>
  Claim C3. The percentage of a row is claimed to be 0 when its total is 0, the division
  not being performed, in the per-tag rows as in the Total row. The Total row has that
  guard (\<open>total_row_guarded\<close>), and a per-tag row with a non-zero total has the claimed
  quotient (\<open>tag_row_quotient\<close>); but the per-tag column is divided without a guard: for
  one billable entry of duration 0 tagged \<^verbatim>\<open>acid\<close>, the row \<^verbatim>\<open>acid\<close> has total 0 and
  its percentage is NaN, next to a Total row whose percentage is 0.
\<close>

theorem tag_row_percent_unguarded:
  "summarize [zero_entry] ''acid'' =
     Inr \<lparr>label_columns = [Billable],
          tag_rows =
            [(''acid'', \<lparr>Billable_Hours = 0, Non_Billable_Hours = 0, Total_Hours = 0,
                         Pct_Billable = NaN\<rparr>)],
          Total = \<lparr>Billable_Hours = 0, Non_Billable_Hours = 0, Total_Hours = 0,
                    Pct_Billable = Fin 0\<rparr>\<rparr>"
  by (simp add: summary_defs search_one lower_acid_anode zero_entry_def)

text \<open>
  Claim C5. Tag matching is claimed not to depend on letter case, the search tags being
  lower-cased like the tag names. The script lower-cases the tag names for the exploded
  column only: an entry tagged \<^verbatim>\<open>acid\<close> is summarised under the search tag
  \<^verbatim>\<open>acid\<close>, and a second entry tagged \<^verbatim>\<open>Acid\<close> adds nothing to that summary; the
  filter drops an entry when its tag and the search tag differ in case; with both
  written \<^verbatim>\<open>Acid\<close> the entry is retained and then loses its exploded row; and in the
  three runs with a capital letter no row is left and the script stops with a KeyError.
\<close>

theorem tag_matching_case_sensitive:
  "summarize [lower_entry] ''acid'' =
     Inr \<lparr>label_columns = [Billable],
          tag_rows =
            [(''acid'', \<lparr>Billable_Hours = 2, Non_Billable_Hours = 0, Total_Hours = 2,
                         Pct_Billable = Fin 100\<rparr>)],
          Total = \<lparr>Billable_Hours = 2, Non_Billable_Hours = 0, Total_Hours = 2,
                    Pct_Billable = Fin 100\<rparr>\<rparr> \<and>
   summarize [lower_entry, capital_entry] ''acid'' = summarize [lower_entry] ''acid'' \<and>
   acid_df (search_tags ''acid'') [capital_entry] = [] \<and>
   acid_df (search_tags ''Acid'') [lower_entry] = [] \<and>
   acid_df (search_tags ''Acid'') [capital_entry] = [capital_entry] \<and>
   acid_exploded (search_tags ''Acid'') [capital_entry] = [] \<and>
   summarize [lower_entry] ''Acid'' = Inl (KeyError ''Billable'') \<and>
   summarize [capital_entry] ''acid'' = Inl (KeyError ''Billable'') \<and>
   summarize [capital_entry] ''Acid'' = Inl (KeyError ''Billable'')"
  by (simp add: summary_defs search_one lower_acid_anode lower_Acid lower_entry_def
        capital_entry_def)

lemma acid_df_no_tags: "acid_df [] df = []"
  by (induction df) (simp_all add: acid_df_def list_ex_iff split: option.split)

lemma no_search_tags:
  assumes "search_tags tag_input = []"
  shows "summarize fetched tag_input =
           Inl (if fetched = [] then NameError ''df'' else KeyError ''Billable'')"
  using assms
  by (simp add: summarize_def acid_df_no_tags acid_exploded_def explode_def has_column_def)

text \<open>
  Claim C9. With no search tag the script is claimed to give an empty per-tag table and
  a Total row of zeros, without error. With the empty text, or one that holds only
  commas and blanks, nothing is retained, the grouped table has no column, and the
  script raises KeyError on the column \<^verbatim>\<open>Billable\<close> (or NameError on \<^verbatim>\<open>df\<close> when
  nothing was fetched), whatever was fetched.
\<close>

theorem no_tags_requested_raises:
  "summarize fetched '''' =
     Inl (if fetched = [] then NameError ''df'' else KeyError ''Billable'') \<and>
   summarize fetched '' , '' =
     Inl (if fetched = [] then NameError ''df'' else KeyError ''Billable'') \<and>
   summarize [lower_entry] '''' = Inl (KeyError ''Billable'')"
  using no_search_tags [of "''''" fetched] no_search_tags [of "'' , ''" fetched]
    no_search_tags [of "''''" "[lower_entry]"]
  by (simp add: search_none)

end
